theory Spec2Isabelle
  imports Complex_Main
begin

section \<open>Data model of \<^verbatim>\<open>VoiceChat.tsx\<close>\<close>

text \<open>
  The component keeps five pieces of React state (\<^verbatim>\<open>status\<close>, \<^verbatim>\<open>messages\<close>,
  \<^verbatim>\<open>isAiSpeaking\<close>, \<^verbatim>\<open>error\<close>, \<^verbatim>\<open>inputVolume\<close>), six refs to browser objects and the
  ref \<^verbatim>\<open>partialTranscriptsRef\<close> holding a \<^verbatim>\<open>Map<string, string>\<close>. All callbacks run on one
  thread, so each callback is a function from the state before to the state after.

  Strings are lists of characters; a character stands for a UTF-16 code unit below 256.
  A \<^verbatim>\<open>Date\<close> is the number of milliseconds it holds.
\<close>

datatype Role = User | Assistant

record Message =
  id_msg :: string
  role :: Role
  text_msg :: string
  timestamp :: nat

datatype ConnectionStatus = Disconnected | Connecting | Connected

text \<open>
  An inbound event is a \<^verbatim>\<open>Record<string, unknown>\<close> that the handler reads through casts:
  \<^verbatim>\<open>event.type as string\<close>, \<^verbatim>\<open>event.item_id as string\<close>, \<^verbatim>\<open>event.delta as string\<close>,
  \<^verbatim>\<open>event.transcript as string\<close> and \<^verbatim>\<open>(event.error as Record<string, unknown>)?.message as string\<close>.
  The record below has these five reads at the types of the casts; \<open>error_message\<close> is
  \<open>None\<close> when \<^verbatim>\<open>event.error?.message\<close> is \<^verbatim>\<open>undefined\<close>. On a string the optional call
  \<^verbatim>\<open>transcript?.trim()\<close> is the call, and its result is truthy when it is not empty.
\<close>

record event =
  type :: string
  item_id :: string
  delta :: string
  transcript :: string
  error_message :: "string option"

text \<open>
  Browser objects are named by handles. The browser's side of the state is the set of
  objects of each kind that are still live: animation-frame callbacks that are scheduled,
  capture tracks that are not stopped, data channels and peer connections that are not
  closed, audio elements that are attached to the document. A \<^verbatim>\<open>MediaStream\<close> is the list
  of its tracks. Ids returned by \<^verbatim>\<open>requestAnimationFrame\<close> are positive, so the test
  \<^verbatim>\<open>if (animFrameRef.current)\<close> is the test against \<^verbatim>\<open>null\<close>, as it is for the object refs.
\<close>

record state =
  status :: ConnectionStatus
  messages :: "Message list"
  isAiSpeaking :: bool
  error :: "string option"
  inputVolume :: real
  pcRef :: "nat option"
  dcRef :: "nat option"
  audioElRef :: "nat option"
  streamRef :: "nat list option"
  analyserRef :: "nat option"
  animFrameRef :: "nat option"
  partialTranscriptsRef :: "string \<rightharpoonup> string"
  frames :: "nat set"
  tracks :: "nat set"
  channels :: "nat set"
  peers :: "nat set"
  sinks :: "nat set"

definition initial :: state where
  "initial = \<lparr> status = Disconnected, messages = [], isAiSpeaking = False, error = None,
     inputVolume = 0, pcRef = None, dcRef = None, audioElRef = None, streamRef = None,
     analyserRef = None, animFrameRef = None, partialTranscriptsRef = Map.empty,
     frames = {}, tracks = {}, channels = {}, peers = {}, sinks = {} \<rparr>"

section \<open>The event interpreter\<close>

text \<open>\<^verbatim>\<open>Array.prototype.findIndex\<close>: the first index whose element satisfies the test, or -1.\<close>

fun findIndex :: "('a \<Rightarrow> bool) \<Rightarrow> 'a list \<Rightarrow> int" where
  "findIndex p [] = - 1"
| "findIndex p (x # xs) =
     (if p x then 0 else (let i = findIndex p xs in if i < 0 then - 1 else i + 1))"

text \<open>
  The updater handed to \<^verbatim>\<open>setMessages\<close> by the two assistant-transcript cases (the source
  writes it out twice, once with \<^verbatim>\<open>updated\<close> and once with \<^verbatim>\<open>transcript\<close> as the text):
  \<^verbatim>\<open>
  (prev) => {
    const idx = prev.findIndex((m) => m.id === itemId);
    if (idx >= 0) { const copy = [...prev]; copy[idx] = { ...copy[idx], text }; return copy; }
    return [...prev, { id: itemId, role: "assistant", text, timestamp: new Date() }];
  }
  \<close>
\<close>

definition upsertAssistant :: "nat \<Rightarrow> string \<Rightarrow> string \<Rightarrow> Message list \<Rightarrow> Message list" where
  "upsertAssistant now itemId txt prev =
     (let idx = findIndex (\<lambda>m. id_msg m = itemId) prev in
      if idx \<ge> 0 then prev[nat idx := (prev ! nat idx)\<lparr>text_msg := txt\<rparr>]
      else prev @ [\<lparr>id_msg = itemId, role = Assistant, text_msg = txt, timestamp = now\<rparr>])"

text \<open>
  \<^verbatim>\<open>String.prototype.trim\<close> strips white space and line terminators from both ends. Among
  the code units below 256 these are TAB, LF, VT, FF, CR, SPACE and NBSP.
\<close>

definition isWhiteSpace :: "char \<Rightarrow> bool" where
  "isWhiteSpace c = (of_char c \<in> {9, 10, 11, 12, 13, 32, 160 :: nat})"

definition trim :: "string \<Rightarrow> string" where
  "trim s = rev (dropWhile isWhiteSpace (rev (dropWhile isWhiteSpace s)))"

text \<open>
  \<^verbatim>\<open>handleRealtimeEvent\<close>, a \<^verbatim>\<open>switch\<close> on \<^verbatim>\<open>event.type\<close> without a default case. The first
  argument is the clock reading that \<^verbatim>\<open>new Date()\<close> captures.
\<close>

definition handleRealtimeEvent :: "nat \<Rightarrow> event \<Rightarrow> state \<Rightarrow> state" where
  "handleRealtimeEvent now event st =
     (if type event = ''response.audio_transcript.delta'' then
        (let itemId = item_id event;
             existing = (case partialTranscriptsRef st itemId of Some s \<Rightarrow> s | None \<Rightarrow> '''');
             updated = existing @ delta event
         in st\<lparr> partialTranscriptsRef := (partialTranscriptsRef st)(itemId \<mapsto> updated),
                messages := upsertAssistant now itemId updated (messages st),
                isAiSpeaking := True \<rparr>)
      else if type event = ''response.audio_transcript.done'' then
        (let itemId = item_id event
         in st\<lparr> partialTranscriptsRef := (partialTranscriptsRef st)(itemId := None),
                messages := upsertAssistant now itemId (transcript event) (messages st),
                isAiSpeaking := False \<rparr>)
      else if type event = ''conversation.item.input_audio_transcription.completed'' then
        (if trim (transcript event) \<noteq> '''' then
           st\<lparr> messages := messages st @
                  [\<lparr>id_msg = item_id event, role = User,
                    text_msg = trim (transcript event), timestamp = now\<rparr>] \<rparr>
         else st)
      else if type event = ''response.audio.done'' then st\<lparr> isAiSpeaking := False \<rparr>
      else if type event = ''error'' then
        st\<lparr> error := Some (case error_message event of
                            None \<Rightarrow> ''An error occurred''
                          | Some errMsg \<Rightarrow> if errMsg \<noteq> '''' then errMsg else ''An error occurred'') \<rparr>
      else st)"

text \<open>Events applied in arrival order, each with the clock reading at its arrival.\<close>

fun applyEvents :: "(nat \<times> event) list \<Rightarrow> state \<Rightarrow> state" where
  "applyEvents [] st = st"
| "applyEvents (ne # rest) st = applyEvents rest (handleRealtimeEvent (fst ne) (snd ne) st)"

text \<open>
  The data channel's \<^verbatim>\<open>onmessage\<close> runs \<^verbatim>\<open>handleRealtimeEvent(JSON.parse(event.data))\<close> with no
  \<^verbatim>\<open>try\<close> around it. \<^verbatim>\<open>JSON.parse\<close> is the platform's; the payload is given by what it
  does on it: it throws a \<^verbatim>\<open>SyntaxError\<close>, or returns \<^verbatim>\<open>null\<close> (then reading \<^verbatim>\<open>event.type\<close>
  throws a \<^verbatim>\<open>TypeError\<close>), or returns a record, taken at the types of the casts as above.
  The result is the exception that leaves the callback, if any, and the state after it.
\<close>

datatype js_error = SyntaxError | TypeError

datatype payload = Unparseable | ParsedNull | Parsed event

definition dc_onmessage :: "nat \<Rightarrow> payload \<Rightarrow> state \<Rightarrow> js_error option \<times> state" where
  "dc_onmessage now data st =
     (case data of
        Unparseable \<Rightarrow> (Some SyntaxError, st)
      | ParsedNull \<Rightarrow> (Some TypeError, st)
      | Parsed event \<Rightarrow> (None, handleRealtimeEvent now event st))"

definition dc_onopen :: "state \<Rightarrow> state" where
  "dc_onopen st = st\<lparr> status := Connected \<rparr>"

definition dc_onclose :: "state \<Rightarrow> state" where
  "dc_onclose st = st\<lparr> status := Disconnected \<rparr>"

text \<open>The error banner's dismiss button: \<^verbatim>\<open>onClick={() => setError(null)}\<close>.\<close>

definition dismissError :: "state \<Rightarrow> state" where
  "dismissError st = st\<lparr> error := None \<rparr>"

section \<open>Teardown\<close>

text \<open>
  \<^verbatim>\<open>cleanup\<close>: five guarded releases in the order of the source, then the three
  unconditional resets.
\<close>

definition cleanup :: "state \<Rightarrow> state" where
  "cleanup st =
     (let st1 = (case animFrameRef st of
                   Some h \<Rightarrow> st\<lparr> frames := frames st - {h}, animFrameRef := None \<rparr>
                 | None \<Rightarrow> st);
          st2 = (case streamRef st1 of
                   Some ts \<Rightarrow> st1\<lparr> tracks := tracks st1 - set ts, streamRef := None \<rparr>
                 | None \<Rightarrow> st1);
          st3 = (case dcRef st2 of
                   Some c \<Rightarrow> st2\<lparr> channels := channels st2 - {c}, dcRef := None \<rparr>
                 | None \<Rightarrow> st2);
          st4 = (case pcRef st3 of
                   Some p \<Rightarrow> st3\<lparr> peers := peers st3 - {p}, pcRef := None \<rparr>
                 | None \<Rightarrow> st3);
          st5 = (case audioElRef st4 of
                   Some a \<Rightarrow> st4\<lparr> sinks := sinks st4 - {a}, audioElRef := None \<rparr>
                 | None \<Rightarrow> st4)
      in st5\<lparr> analyserRef := None, inputVolume := 0, isAiSpeaking := False \<rparr>)"

definition disconnect :: "state \<Rightarrow> state" where
  "disconnect st = (cleanup st)\<lparr> status := Disconnected \<rparr>"

section \<open>Volume meter and connect\<close>

text \<open>
  \<^verbatim>\<open>tick\<close> reads the analyser's byte frequency data, stores its mean divided by 255 and
  schedules itself again; its arguments are the data read and the id that
  \<^verbatim>\<open>requestAnimationFrame\<close> returns. The array has \<^verbatim>\<open>frequencyBinCount\<close> entries, half of
  \<^verbatim>\<open>fftSize = 256\<close>, so its length is not 0. The division is exact here and rounded in the
  source.
  \<^verbatim>\<open>monitorVolume\<close> stores the analyser and runs the first \<^verbatim>\<open>tick\<close> itself. A scheduled
  frame that fires is no longer pending, and runs \<^verbatim>\<open>tick\<close>.
\<close>

definition tick :: "nat list \<Rightarrow> nat \<Rightarrow> state \<Rightarrow> state" where
  "tick dataArray frameId st =
     st\<lparr> inputVolume := real (sum_list dataArray) / real (length dataArray) / 255,
         animFrameRef := Some frameId,
         frames := insert frameId (frames st) \<rparr>"

definition monitorVolume :: "nat \<Rightarrow> nat list \<Rightarrow> nat \<Rightarrow> state \<Rightarrow> state" where
  "monitorVolume analyser dataArray frameId st =
     tick dataArray frameId (st\<lparr> analyserRef := Some analyser \<rparr>)"

definition frameFires :: "nat \<Rightarrow> nat list \<Rightarrow> nat \<Rightarrow> state \<Rightarrow> state" where
  "frameFires h dataArray frameId st =
     (if h \<in> frames st then tick dataArray frameId (st\<lparr> frames := frames st - {h} \<rparr>) else st)"

text \<open>
  What \<^verbatim>\<open>connect\<close> meets on its way is given by the environment: the outcome of every
  awaited call and the handles of the objects it creates. A thrown value is an \<^verbatim>\<open>Error\<close>
  with its message, or something else (\<^verbatim>\<open>err instanceof Error\<close> tells them apart).
\<close>

datatype thrown = ErrorObj string | OtherValue

record session_json =
  error_field :: "string option"
  client_secret_value :: "string option"

record connect_env =
  tokenRes :: "thrown + (bool \<times> (thrown + session_json))"
  new_pc :: nat
  new_audioEl :: nat
  getUserMedia :: "thrown + nat list"
  new_analyser :: nat
  dataArray0 :: "nat list"
  new_frame :: nat
  new_dc :: nat
  createOffer :: "thrown option"
  setLocalDescription :: "thrown option"
  sdpRes :: "thrown + (bool \<times> thrown option)"
  setRemoteDescription :: "thrown option"

text \<open>
  The \<^verbatim>\<open>try\<close> block of \<^verbatim>\<open>connect\<close>, in the steps its comments number. \<open>tokenRes\<close> is the
  fetch of \<^verbatim>\<open>/api/session\<close> (rejected, or a response with its \<^verbatim>\<open>ok\<close> flag and the outcome of
  \<^verbatim>\<open>json()\<close>); \<open>sdpRes\<close> is the fetch of the SDP answer (rejected, or a response with its
  \<^verbatim>\<open>ok\<close> flag and whether \<^verbatim>\<open>text()\<close> throws).

  Step 1 touches no state: it throws or yields the ephemeral key.
\<close>

definition getToken :: "connect_env \<Rightarrow> thrown + string" where
  "getToken env =
     (case tokenRes env of
        Inl e \<Rightarrow> Inl e
      | Inr (ok, body) \<Rightarrow>
         if \<not> ok then
           (case body of
              Inl e \<Rightarrow> Inl e
            | Inr errData \<Rightarrow>
               Inl (ErrorObj (case error_field errData of
                                None \<Rightarrow> ''Failed to get session token''
                              | Some m \<Rightarrow> if m \<noteq> '''' then m
                                          else ''Failed to get session token'')))
         else
           (case body of
              Inl e \<Rightarrow> Inl e
            | Inr sessionData \<Rightarrow>
               (case client_secret_value sessionData of
                  None \<Rightarrow> Inl (ErrorObj ''No ephemeral key received from server'')
                | Some ephemeralKey \<Rightarrow>
                    if ephemeralKey = '''' then
                      Inl (ErrorObj ''No ephemeral key received from server'')
                    else Inr ephemeralKey)))"

text \<open>Steps 2 and 3: the peer connection, then the audio element appended to the document.\<close>

definition openPeer :: "connect_env \<Rightarrow> state \<Rightarrow> state" where
  "openPeer env st0 =
     (let st1 = st0\<lparr> pcRef := Some (new_pc env), peers := insert (new_pc env) (peers st0) \<rparr>
      in st1\<lparr> audioElRef := Some (new_audioEl env),
              sinks := insert (new_audioEl env) (sinks st1) \<rparr>)"

text \<open>Steps 4 and 5, once \<^verbatim>\<open>getUserMedia\<close> has given the stream: the stream is stored, the
  volume meter started and the data channel created.\<close>

definition openMedia :: "connect_env \<Rightarrow> nat list \<Rightarrow> state \<Rightarrow> state" where
  "openMedia env stream st2 =
     (let st3 = st2\<lparr> streamRef := Some stream, tracks := tracks st2 \<union> set stream \<rparr>;
          st4 = monitorVolume (new_analyser env) (dataArray0 env) (new_frame env) st3
      in st4\<lparr> dcRef := Some (new_dc env), channels := insert (new_dc env) (channels st4) \<rparr>)"

text \<open>Steps 6 to 8 touch no state: the offer, the exchange with the signaling endpoint and
  the answer; the result is what they throw, if anything.\<close>

definition negotiate :: "connect_env \<Rightarrow> thrown option" where
  "negotiate env =
     (case createOffer env of
        Some e \<Rightarrow> Some e
      | None \<Rightarrow>
     (case setLocalDescription env of
        Some e \<Rightarrow> Some e
      | None \<Rightarrow>
     (case sdpRes env of
        Inl e \<Rightarrow> Some e
      | Inr (ok, answerSdp) \<Rightarrow>
         if \<not> ok then Some (ErrorObj ''Failed to establish WebRTC connection with OpenAI'')
         else
           (case answerSdp of
              Some e \<Rightarrow> Some e
            | None \<Rightarrow> setRemoteDescription env))))"

text \<open>The whole block: what it throws, if anything, and the state it leaves behind at that
  point.\<close>

definition connect_try :: "connect_env \<Rightarrow> state \<Rightarrow> thrown option \<times> state" where
  "connect_try env st0 =
     (case getToken env of
        Inl e \<Rightarrow> (Some e, st0)
      | Inr ephemeralKey \<Rightarrow>
         (let st2 = openPeer env st0
          in case getUserMedia env of
               Inl e \<Rightarrow> (Some e, st2)
             | Inr stream \<Rightarrow> (negotiate env, openMedia env stream st2)))"

text \<open>The \<^verbatim>\<open>catch\<close> block's message: \<^verbatim>\<open>err instanceof Error ? err.message : "Connection failed"\<close>.\<close>

definition errorMessage :: "thrown \<Rightarrow> string" where
  "errorMessage err = (case err of ErrorObj m \<Rightarrow> m | OtherValue \<Rightarrow> ''Connection failed'')"

definition connect :: "connect_env \<Rightarrow> state \<Rightarrow> state" where
  "connect env st =
     (case connect_try env (st\<lparr> error := None, status := Connecting \<rparr>) of
        (None, st') \<Rightarrow> st'
      | (Some err, st') \<Rightarrow>
          cleanup (st'\<lparr> error := Some (errorMessage err), status := Disconnected \<rparr>))"

section \<open>States of the component\<close>

text \<open>The states the component can be in: the initial one and whatever a callback makes of one.\<close>

inductive reachable :: "state \<Rightarrow> bool" where
  r_initial: "reachable initial"
| r_message: "reachable st \<Longrightarrow> reachable (snd (dc_onmessage now data st))"
| r_open: "reachable st \<Longrightarrow> reachable (dc_onopen st)"
| r_close: "reachable st \<Longrightarrow> reachable (dc_onclose st)"
| r_dismiss: "reachable st \<Longrightarrow> reachable (dismissError st)"
| r_frame: "reachable st \<Longrightarrow> reachable (frameFires h dataArray frameId st)"
| r_connect: "reachable st \<Longrightarrow> reachable (connect env st)"
| r_disconnect: "reachable st \<Longrightarrow> reachable (disconnect st)"

section \<open>Vocabulary of the properties\<close>

definition withId :: "string \<Rightarrow> state \<Rightarrow> Message list" where
  "withId x st = filter (\<lambda>m. id_msg m = x) (messages st)"

definition distinctIds :: "state \<Rightarrow> bool" where
  "distinctIds st = distinct (map id_msg (messages st))"

definition recognized :: "string list" where
  "recognized = [''response.audio_transcript.delta'', ''response.audio_transcript.done'',
     ''conversation.item.input_audio_transcription.completed'', ''response.audio.done'',
     ''error'']"

text \<open>An assistant-transcript-fragment event, an assistant-transcript-final event, a
  user-transcript-final event.\<close>

definition fragment :: "string \<Rightarrow> string \<Rightarrow> event" where
  "fragment x d = \<lparr> type = ''response.audio_transcript.delta'', item_id = x, delta = d,
     transcript = '''', error_message = None \<rparr>"

definition final :: "string \<Rightarrow> string \<Rightarrow> event" where
  "final x t = \<lparr> type = ''response.audio_transcript.done'', item_id = x, delta = '''',
     transcript = t, error_message = None \<rparr>"

definition userFinal :: "string \<Rightarrow> string \<Rightarrow> event" where
  "userFinal x t = \<lparr> type = ''conversation.item.input_audio_transcription.completed'',
     item_id = x, delta = '''', transcript = t, error_message = None \<rparr>"

text \<open>No ref holds an object.\<close>

definition holdsNothing :: "state \<Rightarrow> bool" where
  "holdsNothing st = (pcRef st = None \<and> dcRef st = None \<and> audioElRef st = None \<and>
     streamRef st = None \<and> analyserRef st = None \<and> animFrameRef st = None)"

text \<open>Every object that a ref of \<open>before\<close> holds is no longer live in \<open>after\<close>.\<close>

definition released :: "state \<Rightarrow> state \<Rightarrow> bool" where
  "released before after =
     ((case animFrameRef before of None \<Rightarrow> True | Some h \<Rightarrow> h \<notin> frames after) \<and>
      (case streamRef before of None \<Rightarrow> True | Some ts \<Rightarrow> set ts \<inter> tracks after = {}) \<and>
      (case dcRef before of None \<Rightarrow> True | Some c \<Rightarrow> c \<notin> channels after) \<and>
      (case pcRef before of None \<Rightarrow> True | Some p \<Rightarrow> p \<notin> peers after) \<and>
      (case audioElRef before of None \<Rightarrow> True | Some a \<Rightarrow> a \<notin> sinks after))"

text \<open>
  Four environments for \<^verbatim>\<open>connect\<close>: one in which every step succeeds, one in which the
  session endpoint answers 500 as \<^verbatim>\<open>route.ts\<close> does without an API key, one in which the
  microphone is refused, and one in which the signaling endpoint rejects the offer.
\<close>

definition envOk :: connect_env where
  "envOk = \<lparr> tokenRes = Inr (True, Inr \<lparr> error_field = None,
                                          client_secret_value = Some ''ek_1'' \<rparr>),
     new_pc = 1, new_audioEl = 2, getUserMedia = Inr [3], new_analyser = 4,
     dataArray0 = [0, 0], new_frame = 5, new_dc = 6, createOffer = None,
     setLocalDescription = None, sdpRes = Inr (True, None), setRemoteDescription = None \<rparr>"

definition envNoKey :: connect_env where
  "envNoKey = envOk\<lparr> tokenRes := Inr (False, Inr \<lparr> error_field = Some ''OPENAI_API_KEY is not configured'',
                                                     client_secret_value = None \<rparr>) \<rparr>"

definition envNoMicrophone :: connect_env where
  "envNoMicrophone = envOk\<lparr> getUserMedia := Inl (ErrorObj ''Permission denied'') \<rparr>"

definition envRejected :: connect_env where
  "envRejected = envOk\<lparr> sdpRes := Inr (False, None) \<rparr>"

section \<open>Lists: \<open>findIndex\<close>, the upsert and \<open>trim\<close>\<close>

lemma upsertAssistant_Nil:
  "upsertAssistant now x txt [] = [\<lparr>id_msg = x, role = Assistant, text_msg = txt, timestamp = now\<rparr>]"
  by (simp add: upsertAssistant_def)

lemma findIndex_ge: "- 1 \<le> findIndex p xs"
  by (induction xs) (auto simp: Let_def)

lemma upsertAssistant_Cons:
  "upsertAssistant now x txt (m # ms) =
     (if id_msg m = x then m\<lparr>text_msg := txt\<rparr> # ms else m # upsertAssistant now x txt ms)"
proof -
  have "- 1 \<le> findIndex (\<lambda>m. id_msg m = x) ms" by (rule findIndex_ge)
  then show ?thesis
    by (auto simp: upsertAssistant_def Let_def nat_add_distrib)
qed

lemma findIndex_neg_iff: "findIndex p xs < 0 \<longleftrightarrow> (\<forall>x\<in>set xs. \<not> p x)"
  using findIndex_ge [of p] by (induction xs) (auto simp: Let_def)

lemma upsertAssistant_absent:
  "\<forall>m\<in>set prev. id_msg m \<noteq> x \<Longrightarrow>
     upsertAssistant now x txt prev =
       prev @ [\<lparr>id_msg = x, role = Assistant, text_msg = txt, timestamp = now\<rparr>]"
  by (induction prev) (auto simp: upsertAssistant_Nil upsertAssistant_Cons)

lemma upsertAssistant_present:
  "\<exists>m\<in>set prev. id_msg m = x \<Longrightarrow>
     \<exists>i<length prev. id_msg (prev ! i) = x \<and> (\<forall>j<i. id_msg (prev ! j) \<noteq> x) \<and>
        upsertAssistant now x txt prev = prev[i := (prev ! i)\<lparr>text_msg := txt\<rparr>]"
proof (induction prev)
  case Nil
  then show ?case by simp
next
  case (Cons m ms)
  show ?case
  proof (cases "id_msg m = x")
    case True
    then have "id_msg ((m # ms) ! 0) = x \<and> (\<forall>j<0. id_msg ((m # ms) ! j) \<noteq> x) \<and>
        upsertAssistant now x txt (m # ms) = (m # ms)[0 := ((m # ms) ! 0)\<lparr>text_msg := txt\<rparr>]"
      by (simp add: upsertAssistant_Cons)
    then show ?thesis by (intro exI [of _ 0]) simp
  next
    case False
    with Cons.prems have "\<exists>m\<in>set ms. id_msg m = x" by auto
    from Cons.IH [OF this] obtain i where i: "i < length ms" "id_msg (ms ! i) = x"
      "\<forall>j<i. id_msg (ms ! j) \<noteq> x"
      "upsertAssistant now x txt ms = ms[i := (ms ! i)\<lparr>text_msg := txt\<rparr>]" by blast
    have "\<forall>j<Suc i. id_msg ((m # ms) ! j) \<noteq> x"
      using False i(3) by (auto simp: nth_Cons split: nat.splits)
    with i False show ?thesis
      by (intro exI [of _ "Suc i"]) (simp add: upsertAssistant_Cons)
  qed
qed

lemma filter_upsertAssistant:
  "filter (\<lambda>m. id_msg m = x) (upsertAssistant now x txt prev) =
     (case filter (\<lambda>m. id_msg m = x) prev of
        [] \<Rightarrow> [\<lparr>id_msg = x, role = Assistant, text_msg = txt, timestamp = now\<rparr>]
      | m # ms \<Rightarrow> m\<lparr>text_msg := txt\<rparr> # ms)"
  by (induction prev) (auto simp: upsertAssistant_Nil upsertAssistant_Cons)

lemma map_id_upsertAssistant:
  "map id_msg (upsertAssistant now x txt prev) =
     (if x \<in> set (map id_msg prev) then map id_msg prev else map id_msg prev @ [x])"
  by (induction prev) (auto simp: upsertAssistant_Nil upsertAssistant_Cons)

lemma trim_empty_iff: "trim s = [] \<longleftrightarrow> (\<forall>c\<in>set s. isWhiteSpace c)"
proof
  assume "trim s = []"
  then have all: "\<forall>c\<in>set (dropWhile isWhiteSpace s). isWhiteSpace c"
    by (simp add: trim_def dropWhile_eq_Nil_conv)
  have "dropWhile isWhiteSpace s = []"
  proof (rule ccontr)
    assume ne: "dropWhile isWhiteSpace s \<noteq> []"
    then have "\<not> isWhiteSpace (hd (dropWhile isWhiteSpace s))" by (rule hd_dropWhile)
    moreover from ne have "hd (dropWhile isWhiteSpace s) \<in> set (dropWhile isWhiteSpace s)"
      by (rule hd_in_set)
    ultimately show False using all by blast
  qed
  then show "\<forall>c\<in>set s. isWhiteSpace c"
    by (simp add: dropWhile_eq_Nil_conv)
next
  assume "\<forall>c\<in>set s. isWhiteSpace c"
  then have "dropWhile isWhiteSpace s = []" by (simp add: dropWhile_eq_Nil_conv)
  then show "trim s = []" by (simp only: trim_def rev.simps dropWhile.simps)
qed

section \<open>The cases of the \<^verbatim>\<open>switch\<close>\<close>

lemma handle_delta:
  "type e = ''response.audio_transcript.delta'' \<Longrightarrow>
   handleRealtimeEvent now e st =
     st\<lparr> partialTranscriptsRef := (partialTranscriptsRef st)(item_id e \<mapsto>
            (case partialTranscriptsRef st (item_id e) of Some s \<Rightarrow> s | None \<Rightarrow> '''') @ delta e),
         messages := upsertAssistant now (item_id e)
            ((case partialTranscriptsRef st (item_id e) of Some s \<Rightarrow> s | None \<Rightarrow> '''') @ delta e)
            (messages st),
         isAiSpeaking := True \<rparr>"
  by (simp add: handleRealtimeEvent_def Let_def)

lemma handle_done:
  "type e = ''response.audio_transcript.done'' \<Longrightarrow>
   handleRealtimeEvent now e st =
     st\<lparr> partialTranscriptsRef := (partialTranscriptsRef st)(item_id e := None),
         messages := upsertAssistant now (item_id e) (transcript e) (messages st),
         isAiSpeaking := False \<rparr>"
  by (simp add: handleRealtimeEvent_def Let_def)

lemma handle_user:
  "type e = ''conversation.item.input_audio_transcription.completed'' \<Longrightarrow>
   handleRealtimeEvent now e st =
     (if trim (transcript e) \<noteq> '''' then
        st\<lparr> messages := messages st @
               [\<lparr>id_msg = item_id e, role = User, text_msg = trim (transcript e),
                 timestamp = now\<rparr>] \<rparr>
      else st)"
  by (simp add: handleRealtimeEvent_def)

lemma handle_audio_done:
  "type e = ''response.audio.done'' \<Longrightarrow>
   handleRealtimeEvent now e st = st\<lparr> isAiSpeaking := False \<rparr>"
  by (simp add: handleRealtimeEvent_def)

lemma handle_error:
  "type e = ''error'' \<Longrightarrow>
   handleRealtimeEvent now e st =
     st\<lparr> error := Some (case error_message e of
                         None \<Rightarrow> ''An error occurred''
                       | Some errMsg \<Rightarrow> if errMsg \<noteq> '''' then errMsg else ''An error occurred'') \<rparr>"
  by (simp add: handleRealtimeEvent_def)

lemma handle_other:
  "type e \<notin> set recognized \<Longrightarrow> handleRealtimeEvent now e st = st"
  by (simp add: handleRealtimeEvent_def recognized_def)

lemma type_cases:
  obtains "type e = ''response.audio_transcript.delta''"
  | "type e = ''response.audio_transcript.done''"
  | "type e = ''conversation.item.input_audio_transcription.completed''"
  | "type e = ''response.audio.done''"
  | "type e = ''error''"
  | "type e \<notin> set recognized"
  unfolding recognized_def by auto

section \<open>What is accumulated belongs to a message\<close>

text \<open>Only the event interpreter touches the message list and the accumulator.\<close>

lemma cleanup_transcript:
  "messages (cleanup st) = messages st"
  "partialTranscriptsRef (cleanup st) = partialTranscriptsRef st"
  by (simp_all add: cleanup_def Let_def split: option.splits)

lemma connect_try_transcript:
  "messages (snd (connect_try env st)) = messages st"
  "partialTranscriptsRef (snd (connect_try env st)) = partialTranscriptsRef st"
  by (simp_all add: connect_try_def openPeer_def openMedia_def monitorVolume_def tick_def
        Let_def split: sum.splits)

lemma connect_transcript:
  "messages (connect env st) = messages st"
  "partialTranscriptsRef (connect env st) = partialTranscriptsRef st"
proof -
  obtain r st' where r: "connect_try env (st\<lparr> error := None, status := Connecting \<rparr>) = (r, st')"
    by (cases "connect_try env (st\<lparr> error := None, status := Connecting \<rparr>)")
  from connect_try_transcript [of env "st\<lparr> error := None, status := Connecting \<rparr>"] r
  have "messages st' = messages st" "partialTranscriptsRef st' = partialTranscriptsRef st"
    by simp_all
  with r show "messages (connect env st) = messages st"
    "partialTranscriptsRef (connect env st) = partialTranscriptsRef st"
    by (simp_all add: connect_def cleanup_transcript split: option.splits)
qed

lemma frameFires_transcript:
  "messages (frameFires h d f st) = messages st"
  "partialTranscriptsRef (frameFires h d f st) = partialTranscriptsRef st"
  by (simp_all add: frameFires_def tick_def)

lemma ids_upsertAssistant:
  "id_msg ` set (upsertAssistant now x txt prev) = insert x (id_msg ` set prev)"
proof -
  have "set (map id_msg (upsertAssistant now x txt prev)) = insert x (set (map id_msg prev))"
    by (auto simp: map_id_upsertAssistant)
  then show ?thesis by simp
qed

lemma handle_keeps_accumulated:
  assumes "\<forall>y s. partialTranscriptsRef st y = Some s \<longrightarrow> y \<in> id_msg ` set (messages st)"
  shows "\<forall>y s. partialTranscriptsRef (handleRealtimeEvent now e st) y = Some s \<longrightarrow>
           y \<in> id_msg ` set (messages (handleRealtimeEvent now e st))"
proof (cases e rule: type_cases)
  case 1
  with assms 1 show ?thesis by (auto simp: handle_delta ids_upsertAssistant)
next
  case 2
  with assms 2 show ?thesis by (auto simp: handle_done ids_upsertAssistant)
next
  case 3
  with assms show ?thesis by (auto simp: handle_user)
next
  case 4
  with assms show ?thesis by (auto simp: handle_audio_done)
next
  case 5
  with assms show ?thesis by (auto simp: handle_error)
next
  case 6
  with assms show ?thesis by (simp add: handle_other)
qed

lemma reachable_accumulated:
  "reachable st \<Longrightarrow>
     \<forall>y s. partialTranscriptsRef st y = Some s \<longrightarrow> y \<in> id_msg ` set (messages st)"
proof (induction rule: reachable.induct)
  case r_initial
  show ?case by (simp add: initial_def)
next
  case (r_message st now data)
  show ?case
  proof (cases data)
    case (Parsed e)
    with handle_keeps_accumulated [OF r_message.IH, of now e] show ?thesis
      by (simp add: dc_onmessage_def)
  qed (use r_message.IH in \<open>simp_all add: dc_onmessage_def\<close>)
next
  case (r_open st)
  then show ?case by (simp add: dc_onopen_def)
next
  case (r_close st)
  then show ?case by (simp add: dc_onclose_def)
next
  case (r_dismiss st)
  then show ?case by (simp add: dismissError_def)
next
  case (r_frame st h dataArray frameId)
  then show ?case by (simp add: frameFires_transcript)
next
  case (r_connect st env)
  then show ?case by (simp add: connect_transcript)
next
  case (r_disconnect st)
  then show ?case by (simp add: disconnect_def cleanup_transcript)
qed

section \<open>Fragments\<close>

lemma fragments_extend:
  assumes "\<forall>ne\<in>set evs. type (snd ne) = ''response.audio_transcript.delta'' \<and> item_id (snd ne) = x"
    and "withId x st = [m]" and "partialTranscriptsRef st x = Some (text_msg m)"
  shows "withId x (applyEvents evs st) =
           [m\<lparr>text_msg := text_msg m @ concat (map (\<lambda>ne. delta (snd ne)) evs)\<rparr>]"
  using assms
proof (induction evs arbitrary: st m)
  case Nil
  then show ?case by simp
next
  case (Cons ne evs)
  let ?st = "handleRealtimeEvent (fst ne) (snd ne) st"
  let ?m = "m\<lparr>text_msg := text_msg m @ delta (snd ne)\<rparr>"
  from Cons.prems have ne: "type (snd ne) = ''response.audio_transcript.delta''"
    "item_id (snd ne) = x" by simp_all
  have w: "withId x ?st = [?m]"
    using Cons.prems(2,3) ne by (simp add: handle_delta withId_def filter_upsertAssistant)
  have p: "partialTranscriptsRef ?st x = Some (text_msg ?m)"
    using Cons.prems(3) ne by (simp add: handle_delta)
  from Cons.prems(1) have "\<forall>ne\<in>set evs. type (snd ne) = ''response.audio_transcript.delta'' \<and> item_id (snd ne) = x"
    by simp
  from Cons.IH [OF this w p] show ?case by simp
qed

text \<open>
  C1. Fragments for one item id, applied in arrival order to a state of the component that
  has no message with that id (and at least one fragment arrives): afterwards there is
  exactly one message with that id; its role is assistant, its text is the concatenation
  of the deltas in arrival order and its timestamp is the arrival of the first fragment.
\<close>

theorem fragments_concatenate:
  assumes "reachable st"
    and "\<forall>m\<in>set (messages st). id_msg m \<noteq> x"
    and "evs \<noteq> []"
    and "\<forall>ne\<in>set evs. type (snd ne) = ''response.audio_transcript.delta'' \<and> item_id (snd ne) = x"
  shows "withId x (applyEvents evs st) =
           [\<lparr>id_msg = x, role = Assistant,
             text_msg = concat (map (\<lambda>ne. delta (snd ne)) evs),
             timestamp = fst (hd evs)\<rparr>]"
proof -
  from assms(3) obtain ne rest where evs: "evs = ne # rest" by (cases evs) auto
  let ?st = "handleRealtimeEvent (fst ne) (snd ne) st"
  let ?m = "\<lparr>id_msg = x, role = Assistant, text_msg = delta (snd ne), timestamp = fst ne\<rparr>"
  from assms(4) evs have ne: "type (snd ne) = ''response.audio_transcript.delta''"
    "item_id (snd ne) = x" by simp_all
  have none: "partialTranscriptsRef st x = None"
  proof (cases "partialTranscriptsRef st x")
    case (Some s)
    with reachable_accumulated [OF assms(1)] have "x \<in> id_msg ` set (messages st)" by blast
    with assms(2) show ?thesis by auto
  qed simp
  from assms(2) have "filter (\<lambda>m. id_msg m = x) (messages st) = []" by (simp add: filter_empty_conv)
  then have w: "withId x ?st = [?m]"
    using ne none by (simp add: handle_delta withId_def filter_upsertAssistant)
  have p: "partialTranscriptsRef ?st x = Some (text_msg ?m)"
    using ne none by (simp add: handle_delta)
  from assms(4) evs have "\<forall>ne\<in>set rest. type (snd ne) = ''response.audio_transcript.delta'' \<and> item_id (snd ne) = x"
    by simp
  from fragments_extend [OF this w p] evs show ?thesis by simp
qed

theorem fragments_concatenate_witness:
  "reachable initial \<and> messages initial = [] \<and>
   withId ''a1'' (applyEvents [(10, fragment ''a1'' ''Hel''), (20, fragment ''a1'' ''lo'')] initial) =
     [\<lparr>id_msg = ''a1'', role = Assistant, text_msg = ''Hello'', timestamp = 10\<rparr>]"
proof -
  have r: "reachable initial" by (rule r_initial)
  have f: "\<forall>m\<in>set (messages initial). id_msg m \<noteq> ''a1''" by (simp add: initial_def)
  from fragments_concatenate [OF r f,
      of "[(10, fragment ''a1'' ''Hel''), (20, fragment ''a1'' ''lo'')]"]
  have "withId ''a1'' (applyEvents [(10, fragment ''a1'' ''Hel''), (20, fragment ''a1'' ''lo'')] initial) =
     [\<lparr>id_msg = ''a1'', role = Assistant, text_msg = ''Hello'', timestamp = 10\<rparr>]"
    by (simp add: fragment_def)
  with r show ?thesis by (simp add: initial_def)
qed

section \<open>Final transcripts\<close>

text \<open>
  C2, as amended. In a state with at most one message for the event's item id, an
  assistant-transcript-final event leaves exactly one message with that id; its text is the
  event's transcript verbatim, whatever was accumulated; the accumulator has no entry for
  that id any more; the speaking flag is off.
\<close>

theorem final_is_verbatim:
  assumes "type e = ''response.audio_transcript.done''"
    and "length (withId (item_id e) st) \<le> 1"
  shows "\<exists>m. withId (item_id e) (handleRealtimeEvent now e st) = [m] \<and>
           text_msg m = transcript e \<and>
           partialTranscriptsRef (handleRealtimeEvent now e st) (item_id e) = None \<and>
           \<not> isAiSpeaking (handleRealtimeEvent now e st)"
proof (cases "withId (item_id e) st")
  case Nil
  with assms(1) show ?thesis
    by (simp add: handle_done withId_def filter_upsertAssistant)
next
  case (Cons m ms)
  with assms(2) have "ms = []" by simp
  with Cons assms(1) show ?thesis
    by (simp add: handle_done withId_def filter_upsertAssistant)
qed

theorem final_is_verbatim_witness:
  "withId ''a1'' (applyEvents [(10, fragment ''a1'' ''Hel''), (20, fragment ''a1'' ''lo'')] initial) =
     [\<lparr>id_msg = ''a1'', role = Assistant, text_msg = ''Hello'', timestamp = 10\<rparr>] \<and>
   withId ''a1'' (applyEvents [(10, fragment ''a1'' ''Hel''), (20, fragment ''a1'' ''lo''),
      (30, final ''a1'' ''Hello there'')] initial) =
     [\<lparr>id_msg = ''a1'', role = Assistant, text_msg = ''Hello there'', timestamp = 10\<rparr>] \<and>
   partialTranscriptsRef (applyEvents [(10, fragment ''a1'' ''Hel''), (20, fragment ''a1'' ''lo''),
      (30, final ''a1'' ''Hello there'')] initial) ''a1'' = None"
proof -
  let ?st = "applyEvents [(10, fragment ''a1'' ''Hel''), (20, fragment ''a1'' ''lo'')] initial"
  have w: "withId ''a1'' ?st =
     [\<lparr>id_msg = ''a1'', role = Assistant, text_msg = ''Hello'', timestamp = 10\<rparr>]"
    by (simp add: withId_def initial_def fragment_def handleRealtimeEvent_def upsertAssistant_def Let_def)
  have t: "type (final ''a1'' ''Hello there'') = ''response.audio_transcript.done''"
    by (simp add: final_def)
  have l: "length (withId (item_id (final ''a1'' ''Hello there'')) ?st) \<le> 1"
    using w by (simp add: final_def)
  from final_is_verbatim [OF t l, of 30] w show ?thesis
    by (auto simp: final_def withId_def initial_def fragment_def handleRealtimeEvent_def upsertAssistant_def Let_def)
qed

text \<open>
  Without the bound the count is not one: two user transcripts with the same item id leave
  two messages with that id, and the final transcript for that id, which updates the first
  of them, leaves two.
\<close>

theorem final_duplicate_counterexample:
  "withId ''u1'' (applyEvents [(1, userFinal ''u1'' ''hi''), (2, userFinal ''u1'' ''hi''),
      (3, final ''u1'' ''hi'')] initial) =
     [\<lparr>id_msg = ''u1'', role = User, text_msg = ''hi'', timestamp = 1\<rparr>,
      \<lparr>id_msg = ''u1'', role = User, text_msg = ''hi'', timestamp = 2\<rparr>]"
  by (simp add: withId_def initial_def userFinal_def final_def handleRealtimeEvent_def Let_def
      upsertAssistant_def trim_def isWhiteSpace_def)

section \<open>One message per id\<close>

text \<open>
  C3, as amended. "No two messages share an id" is kept by every event except a
  user-transcript-final event with a non-blank transcript whose item id already names a
  message. A fragment or final transcript for an id that names a message changes no id and
  adds no entry.
\<close>

theorem distinct_ids_preserved:
  assumes "distinctIds st"
    and "type e = ''conversation.item.input_audio_transcription.completed'' \<longrightarrow>
           trim (transcript e) = '''' \<or> item_id e \<notin> id_msg ` set (messages st)"
  shows "distinctIds (handleRealtimeEvent now e st) \<and>
         ((type e = ''response.audio_transcript.delta'' \<or>
           type e = ''response.audio_transcript.done'') \<and>
          item_id e \<in> id_msg ` set (messages st) \<longrightarrow>
            map id_msg (messages (handleRealtimeEvent now e st)) = map id_msg (messages st))"
proof (cases e rule: type_cases)
  case 1
  with assms(1) show ?thesis
    by (auto simp: handle_delta distinctIds_def map_id_upsertAssistant)
next
  case 2
  with assms(1) show ?thesis
    by (auto simp: handle_done distinctIds_def map_id_upsertAssistant)
next
  case 3
  with assms show ?thesis
    by (auto simp: handle_user distinctIds_def)
next
  case 4
  with assms(1) show ?thesis by (simp add: handle_audio_done distinctIds_def)
next
  case 5
  with assms(1) show ?thesis by (simp add: handle_error distinctIds_def)
next
  case 6
  with assms(1) show ?thesis by (auto simp: handle_other recognized_def)
qed

theorem distinct_ids_preserved_witness:
  "distinctIds (handleRealtimeEvent 1 (fragment ''a1'' ''Hel'') initial) \<and>
   distinctIds (handleRealtimeEvent 2 (fragment ''a1'' ''lo'')
      (handleRealtimeEvent 1 (fragment ''a1'' ''Hel'') initial)) \<and>
   map id_msg (messages (handleRealtimeEvent 2 (fragment ''a1'' ''lo'')
      (handleRealtimeEvent 1 (fragment ''a1'' ''Hel'') initial))) = [''a1'']"
proof -
  let ?st = "handleRealtimeEvent 1 (fragment ''a1'' ''Hel'') initial"
  have m: "map id_msg (messages ?st) = [''a1'']"
    by (simp add: initial_def fragment_def handleRealtimeEvent_def upsertAssistant_def Let_def)
  then have d: "distinctIds ?st" by (simp add: distinctIds_def)
  have t: "type (fragment ''a1'' ''lo'') = ''conversation.item.input_audio_transcription.completed'' \<longrightarrow>
      trim (transcript (fragment ''a1'' ''lo'')) = '''' \<or>
      item_id (fragment ''a1'' ''lo'') \<notin> id_msg ` set (messages ?st)"
    by (simp add: fragment_def)
  have i: "item_id (fragment ''a1'' ''lo'') \<in> set (map id_msg (messages ?st))"
    unfolding m by (simp add: fragment_def)
  from distinct_ids_preserved [OF d t, of 2] i m d show ?thesis
    by (simp add: fragment_def)
qed

text \<open>
  A user transcript is appended without a look at the ids: a second one with the same item
  id makes a second message with that id.
\<close>

theorem user_final_duplicates_counterexample:
  "distinctIds (handleRealtimeEvent 1 (userFinal ''u1'' ''hi'') initial) \<and>
   \<not> distinctIds (handleRealtimeEvent 2 (userFinal ''u1'' ''again'')
        (handleRealtimeEvent 1 (userFinal ''u1'' ''hi'') initial)) \<and>
   messages (handleRealtimeEvent 2 (userFinal ''u1'' ''again'')
        (handleRealtimeEvent 1 (userFinal ''u1'' ''hi'') initial)) =
     [\<lparr>id_msg = ''u1'', role = User, text_msg = ''hi'', timestamp = 1\<rparr>,
      \<lparr>id_msg = ''u1'', role = User, text_msg = ''again'', timestamp = 2\<rparr>]"
  by (simp add: distinctIds_def initial_def userFinal_def handleRealtimeEvent_def
      trim_def isWhiteSpace_def)

section \<open>The upsert\<close>

text \<open>
  C7. A fragment or a final transcript writes \<open>txt\<close> (for a fragment the accumulated value
  followed by the delta, for a final transcript the transcript). If a message with the
  event's item id exists, the first such message, at index \<open>i\<close>, has its text replaced and
  nothing else changes: the list keeps its length and order, every other message is as it
  was, and the message keeps its id, role and timestamp. If none exists, a new assistant
  message with the clock reading of this event is appended at the end.
\<close>

theorem upsert_in_place_or_append:
  assumes "type e = ''response.audio_transcript.delta'' \<and>
             txt = (case partialTranscriptsRef st (item_id e) of Some s \<Rightarrow> s | None \<Rightarrow> '''')
                     @ delta e
           \<or> type e = ''response.audio_transcript.done'' \<and> txt = transcript e"
  shows "((\<exists>m\<in>set (messages st). id_msg m = item_id e) \<longrightarrow>
            (\<exists>i<length (messages st).
               id_msg (messages st ! i) = item_id e \<and>
               (\<forall>j<i. id_msg (messages st ! j) \<noteq> item_id e) \<and>
               messages (handleRealtimeEvent now e st) =
                 (messages st)[i := (messages st ! i)\<lparr>text_msg := txt\<rparr>])) \<and>
         ((\<forall>m\<in>set (messages st). id_msg m \<noteq> item_id e) \<longrightarrow>
            messages (handleRealtimeEvent now e st) =
              messages st @ [\<lparr>id_msg = item_id e, role = Assistant, text_msg = txt,
                              timestamp = now\<rparr>])"
proof -
  have m: "messages (handleRealtimeEvent now e st) =
             upsertAssistant now (item_id e) txt (messages st)"
    using assms by (auto simp: handle_delta handle_done)
  show ?thesis
    using upsertAssistant_present [of "messages st" "item_id e" now "txt"]
      upsertAssistant_absent [of "messages st" "item_id e" now "txt"]
    unfolding m by blast
qed

theorem upsert_in_place_or_append_witness:
  "messages (handleRealtimeEvent 30 (final ''a1'' ''Hello there'')
     (handleRealtimeEvent 20 (userFinal ''u1'' ''hi'')
       (handleRealtimeEvent 10 (fragment ''a1'' ''Hel'') initial))) =
     [\<lparr>id_msg = ''a1'', role = Assistant, text_msg = ''Hello there'', timestamp = 10\<rparr>,
      \<lparr>id_msg = ''u1'', role = User, text_msg = ''hi'', timestamp = 20\<rparr>] \<and>
   messages (handleRealtimeEvent 10 (fragment ''a1'' ''Hel'') initial) =
     [\<lparr>id_msg = ''a1'', role = Assistant, text_msg = ''Hel'', timestamp = 10\<rparr>]"
proof -
  let ?s1 = "handleRealtimeEvent 10 (fragment ''a1'' ''Hel'') initial"
  let ?s2 = "handleRealtimeEvent 20 (userFinal ''u1'' ''hi'') ?s1"
  have a: "type (fragment ''a1'' ''Hel'') = ''response.audio_transcript.delta'' \<and>
      ''Hel'' = (case partialTranscriptsRef initial (item_id (fragment ''a1'' ''Hel'')) of
                  Some s \<Rightarrow> s | None \<Rightarrow> '''') @ delta (fragment ''a1'' ''Hel'')
      \<or> type (fragment ''a1'' ''Hel'') = ''response.audio_transcript.done'' \<and>
        ''Hel'' = transcript (fragment ''a1'' ''Hel'')"
    by (simp add: fragment_def initial_def)
  from upsert_in_place_or_append [OF a, of 10]
  have m1: "messages ?s1 =
     [\<lparr>id_msg = ''a1'', role = Assistant, text_msg = ''Hel'', timestamp = 10\<rparr>]"
    by (simp add: fragment_def initial_def)
  then have m2: "messages ?s2 =
     [\<lparr>id_msg = ''a1'', role = Assistant, text_msg = ''Hel'', timestamp = 10\<rparr>,
      \<lparr>id_msg = ''u1'', role = User, text_msg = ''hi'', timestamp = 20\<rparr>]"
    by (simp add: handle_user userFinal_def trim_def isWhiteSpace_def)
  have b: "type (final ''a1'' ''Hello there'') = ''response.audio_transcript.delta'' \<and>
      ''Hello there'' = (case partialTranscriptsRef ?s2 (item_id (final ''a1'' ''Hello there'')) of
                  Some s \<Rightarrow> s | None \<Rightarrow> '''') @ delta (final ''a1'' ''Hello there'')
      \<or> type (final ''a1'' ''Hello there'') = ''response.audio_transcript.done'' \<and>
        ''Hello there'' = transcript (final ''a1'' ''Hello there'')"
    by (simp add: final_def)
  from upsert_in_place_or_append [OF b, of 30]
  have "messages (handleRealtimeEvent 30 (final ''a1'' ''Hello there'') ?s2) =
     [\<lparr>id_msg = ''a1'', role = Assistant, text_msg = ''Hello there'', timestamp = 10\<rparr>,
      \<lparr>id_msg = ''u1'', role = User, text_msg = ''hi'', timestamp = 20\<rparr>]"
    unfolding m2 by (auto simp: final_def less_Suc_eq)
  with m1 show ?thesis by simp
qed

section \<open>User transcripts\<close>

text \<open>
  C8. A user-transcript-final event whose transcript is empty or all white space changes
  nothing; one with any other transcript appends exactly one message after all prior ones,
  with role user and the trimmed transcript, which is not empty, as its text.
\<close>

theorem user_final_appends_trimmed:
  assumes "type e = ''conversation.item.input_audio_transcription.completed''"
  shows "((\<forall>c\<in>set (transcript e). isWhiteSpace c) \<longrightarrow>
            handleRealtimeEvent now e st = st) \<and>
         ((\<exists>c\<in>set (transcript e). \<not> isWhiteSpace c) \<longrightarrow>
            trim (transcript e) \<noteq> '''' \<and>
            messages (handleRealtimeEvent now e st) =
              messages st @ [\<lparr>id_msg = item_id e, role = User,
                              text_msg = trim (transcript e), timestamp = now\<rparr>])"
  using assms trim_empty_iff [of "transcript e"] by (auto simp: handle_user)

theorem user_final_appends_trimmed_witness:
  "handleRealtimeEvent 5 (userFinal ''u1'' ''   '') initial = initial \<and>
   messages (handleRealtimeEvent 5 (userFinal ''u1'' '' hi there  '') initial) =
     [\<lparr>id_msg = ''u1'', role = User, text_msg = ''hi there'', timestamp = 5\<rparr>]"
proof -
  have t: "type (userFinal x s) = ''conversation.item.input_audio_transcription.completed''"
    for x s by (simp add: userFinal_def)
  have b: "\<forall>c\<in>set (transcript (userFinal ''u1'' ''   '')). isWhiteSpace c"
    by (simp add: userFinal_def isWhiteSpace_def)
  have n: "\<exists>c\<in>set (transcript (userFinal ''u1'' '' hi there  '')). \<not> isWhiteSpace c"
    by (simp add: userFinal_def isWhiteSpace_def)
  have tr: "trim '' hi there  '' = ''hi there''"
    by (simp add: trim_def isWhiteSpace_def)
  from user_final_appends_trimmed [OF t, of "''u1''" "''   ''" 5 initial] b
  have 1: "handleRealtimeEvent 5 (userFinal ''u1'' ''   '') initial = initial" by blast
  from user_final_appends_trimmed [OF t, of "''u1''" "'' hi there  ''" 5 initial] n
  have "messages (handleRealtimeEvent 5 (userFinal ''u1'' '' hi there  '') initial) =
      messages initial @ [\<lparr>id_msg = item_id (userFinal ''u1'' '' hi there  ''), role = User,
         text_msg = trim (transcript (userFinal ''u1'' '' hi there  '')), timestamp = 5\<rparr>]"
    by blast
  then have 2: "messages (handleRealtimeEvent 5 (userFinal ''u1'' '' hi there  '') initial) =
     [\<lparr>id_msg = ''u1'', role = User, text_msg = ''hi there'', timestamp = 5\<rparr>]"
    by (simp add: userFinal_def tr initial_def)
  from 1 2 show ?thesis by simp
qed

section \<open>A fragment after the final transcript\<close>

text \<open>
  C10. When a message with the fragment's item id exists but nothing is accumulated for
  that id, the fragment replaces the text of that message (the first with the id) by the
  delta alone, and the delta is what is accumulated afterwards.
\<close>

theorem fragment_after_final_restarts:
  assumes "type e = ''response.audio_transcript.delta''"
    and "partialTranscriptsRef st (item_id e) = None"
    and "\<exists>m\<in>set (messages st). id_msg m = item_id e"
  shows "\<exists>i<length (messages st).
           id_msg (messages st ! i) = item_id e \<and>
           (\<forall>j<i. id_msg (messages st ! j) \<noteq> item_id e) \<and>
           messages (handleRealtimeEvent now e st) =
             (messages st)[i := (messages st ! i)\<lparr>text_msg := delta e\<rparr>] \<and>
           partialTranscriptsRef (handleRealtimeEvent now e st) (item_id e) = Some (delta e)"
proof -
  from upsertAssistant_present [OF assms(3), of now "delta e"]
  obtain i where i: "i < length (messages st)" "id_msg (messages st ! i) = item_id e"
    "\<forall>j<i. id_msg (messages st ! j) \<noteq> item_id e"
    "upsertAssistant now (item_id e) (delta e) (messages st) =
       (messages st)[i := (messages st ! i)\<lparr>text_msg := delta e\<rparr>]" by blast
  have "messages (handleRealtimeEvent now e st) =
          upsertAssistant now (item_id e) (delta e) (messages st)"
    "partialTranscriptsRef (handleRealtimeEvent now e st) (item_id e) = Some (delta e)"
    using assms(1,2) by (simp_all add: handle_delta)
  with i show ?thesis by auto
qed

theorem fragment_after_final_restarts_witness:
  "partialTranscriptsRef (applyEvents [(10, fragment ''a1'' ''Hel''), (20, fragment ''a1'' ''lo''),
      (30, final ''a1'' ''Hello there'')] initial) ''a1'' = None \<and>
   messages (applyEvents [(10, fragment ''a1'' ''Hel''), (20, fragment ''a1'' ''lo''),
      (30, final ''a1'' ''Hello there'')] initial) =
     [\<lparr>id_msg = ''a1'', role = Assistant, text_msg = ''Hello there'', timestamp = 10\<rparr>] \<and>
   messages (handleRealtimeEvent 40 (fragment ''a1'' ''!'')
     (applyEvents [(10, fragment ''a1'' ''Hel''), (20, fragment ''a1'' ''lo''),
      (30, final ''a1'' ''Hello there'')] initial)) =
     [\<lparr>id_msg = ''a1'', role = Assistant, text_msg = ''!'', timestamp = 10\<rparr>]"
proof -
  let ?st = "applyEvents [(10, fragment ''a1'' ''Hel''), (20, fragment ''a1'' ''lo''),
      (30, final ''a1'' ''Hello there'')] initial"
  have p: "partialTranscriptsRef ?st ''a1'' = None"
    by (simp add: initial_def fragment_def final_def handleRealtimeEvent_def Let_def)
  have m: "messages ?st =
     [\<lparr>id_msg = ''a1'', role = Assistant, text_msg = ''Hello there'', timestamp = 10\<rparr>]"
    by (simp add: initial_def fragment_def final_def handleRealtimeEvent_def
        upsertAssistant_def Let_def)
  have t: "type (fragment ''a1'' ''!'') = ''response.audio_transcript.delta''"
    by (simp add: fragment_def)
  have p': "partialTranscriptsRef ?st (item_id (fragment ''a1'' ''!'')) = None"
    using p by (simp add: fragment_def)
  have e: "\<exists>m\<in>set (messages ?st). id_msg m = item_id (fragment ''a1'' ''!'')"
    unfolding m by (simp add: fragment_def)
  from fragment_after_final_restarts [OF t p' e, of 40]
  have "messages (handleRealtimeEvent 40 (fragment ''a1'' ''!'') ?st) =
     [\<lparr>id_msg = ''a1'', role = Assistant, text_msg = ''!'', timestamp = 10\<rparr>]"
    unfolding m by (auto simp: fragment_def)
  with p m show ?thesis by simp
qed

section \<open>Payloads that are not understood\<close>

text \<open>
  C4, as amended. A payload that does not parse, that parses to \<^verbatim>\<open>null\<close>, or whose event
  kind is not one of the five recognized kinds leaves the whole state unchanged. No
  exception leaves the callback exactly when the payload parsed to a record of an
  unrecognized kind; an unparseable payload lets the \<^verbatim>\<open>SyntaxError\<close> of \<^verbatim>\<open>JSON.parse\<close> out, and
  \<^verbatim>\<open>null\<close> a \<^verbatim>\<open>TypeError\<close>.
\<close>

theorem not_understood_keeps_state:
  assumes "data = Unparseable \<or> data = ParsedNull \<or>
           (\<exists>e. data = Parsed e \<and> type e \<notin> set recognized)"
  shows "snd (dc_onmessage now data st) = st \<and>
         (fst (dc_onmessage now data st) = None \<longleftrightarrow>
            (\<exists>e. data = Parsed e \<and> type e \<notin> set recognized)) \<and>
         (fst (dc_onmessage now data st) = Some SyntaxError \<longleftrightarrow> data = Unparseable) \<and>
         (fst (dc_onmessage now data st) = Some TypeError \<longleftrightarrow> data = ParsedNull)"
  using assms by (auto simp: dc_onmessage_def handle_other)

theorem not_understood_keeps_state_witness:
  "dc_onmessage 7 (Parsed \<lparr> type = ''foo.bar'', item_id = ''x'', delta = ''y'',
      transcript = ''z'', error_message = None \<rparr>)
     (handleRealtimeEvent 1 (fragment ''a1'' ''Hel'') initial) =
     (None, handleRealtimeEvent 1 (fragment ''a1'' ''Hel'') initial)"
proof -
  let ?e = "\<lparr> type = ''foo.bar'', item_id = ''x'', delta = ''y'',
      transcript = ''z'', error_message = None \<rparr>"
  have "Parsed ?e = Unparseable \<or> Parsed ?e = ParsedNull \<or>
           (\<exists>e. Parsed ?e = Parsed e \<and> type e \<notin> set recognized)"
    by (simp add: recognized_def)
  from not_understood_keeps_state [OF this, of 7 "handleRealtimeEvent 1 (fragment ''a1'' ''Hel'') initial"]
  show ?thesis by (simp add: prod_eq_iff recognized_def)
qed

text \<open>A payload that is not JSON raises an error out of the callback.\<close>

theorem unparseable_payload_counterexample:
  "dc_onmessage 0 Unparseable initial = (Some SyntaxError, initial)"
  by (simp add: dc_onmessage_def)

section \<open>The speaking flag\<close>

text \<open>
  C6, as amended. The speaking flag is on right after a fragment, off right after a final
  transcript or an audio-done event, as it was after any other event, and off after
  \<^verbatim>\<open>cleanup\<close> and after \<^verbatim>\<open>disconnect\<close>.
\<close>

theorem speaking_flag:
  "(type e = ''response.audio_transcript.delta'' \<longrightarrow>
      isAiSpeaking (handleRealtimeEvent now e st)) \<and>
   (type e = ''response.audio_transcript.done'' \<or> type e = ''response.audio.done'' \<longrightarrow>
      \<not> isAiSpeaking (handleRealtimeEvent now e st)) \<and>
   (type e \<noteq> ''response.audio_transcript.delta'' \<and>
    type e \<noteq> ''response.audio_transcript.done'' \<and> type e \<noteq> ''response.audio.done'' \<longrightarrow>
      isAiSpeaking (handleRealtimeEvent now e st) = isAiSpeaking st) \<and>
   \<not> isAiSpeaking (cleanup st) \<and> \<not> isAiSpeaking (disconnect st)"
proof -
  have "\<not> isAiSpeaking (cleanup st)"
    by (simp add: cleanup_def Let_def split: option.splits)
  then have "\<not> isAiSpeaking (cleanup st) \<and> \<not> isAiSpeaking (disconnect st)"
    by (simp add: disconnect_def)
  moreover have "type e = ''response.audio_transcript.delta'' \<longrightarrow>
      isAiSpeaking (handleRealtimeEvent now e st)"
    by (simp add: handle_delta)
  moreover have "type e = ''response.audio_transcript.done'' \<or> type e = ''response.audio.done'' \<longrightarrow>
      \<not> isAiSpeaking (handleRealtimeEvent now e st)"
    by (auto simp: handle_done handle_audio_done)
  moreover have "type e \<noteq> ''response.audio_transcript.delta'' \<and>
    type e \<noteq> ''response.audio_transcript.done'' \<and> type e \<noteq> ''response.audio.done'' \<longrightarrow>
      isAiSpeaking (handleRealtimeEvent now e st) = isAiSpeaking st"
    by (cases e rule: type_cases) (auto simp: handle_user handle_error handle_other)
  ultimately show ?thesis by blast
qed

theorem speaking_flag_witness:
  "isAiSpeaking (handleRealtimeEvent 1 (fragment ''a1'' ''Hel'') initial) \<and>
   \<not> isAiSpeaking (handleRealtimeEvent 2 (final ''a1'' ''Hello'')
        (handleRealtimeEvent 1 (fragment ''a1'' ''Hel'') initial)) \<and>
   \<not> isAiSpeaking (disconnect (handleRealtimeEvent 1 (fragment ''a1'' ''Hel'') initial))"
  using speaking_flag [of "fragment ''a1'' ''Hel''" 1 initial]
    speaking_flag [of "final ''a1'' ''Hello''" 2 "handleRealtimeEvent 1 (fragment ''a1'' ''Hel'') initial"]
    speaking_flag [of "fragment ''a1'' ''Hel''" 1 "handleRealtimeEvent 1 (fragment ''a1'' ''Hel'') initial"]
  by (simp add: fragment_def final_def)

text \<open>
  No case of the \<^verbatim>\<open>switch\<close> is an audio-start signal: the event that announces the start of
  the assistant's audio on this transport leaves the flag off.
\<close>

theorem audio_start_counterexample:
  "\<not> isAiSpeaking (handleRealtimeEvent 0
       \<lparr> type = ''output_audio_buffer.started'', item_id = '''', delta = '''',
         transcript = '''', error_message = None \<rparr> initial)"
  by (simp add: handleRealtimeEvent_def initial_def)

section \<open>Teardown\<close>

lemma cleanup_eq:
  "cleanup st =
     st\<lparr> frames := (case animFrameRef st of Some h \<Rightarrow> frames st - {h} | None \<Rightarrow> frames st),
         tracks := (case streamRef st of Some ts \<Rightarrow> tracks st - set ts | None \<Rightarrow> tracks st),
         channels := (case dcRef st of Some c \<Rightarrow> channels st - {c} | None \<Rightarrow> channels st),
         peers := (case pcRef st of Some p \<Rightarrow> peers st - {p} | None \<Rightarrow> peers st),
         sinks := (case audioElRef st of Some a \<Rightarrow> sinks st - {a} | None \<Rightarrow> sinks st),
         animFrameRef := None, streamRef := None, dcRef := None, pcRef := None,
         audioElRef := None, analyserRef := None, inputVolume := 0, isAiSpeaking := False \<rparr>"
  by (cases "animFrameRef st"; cases "streamRef st"; cases "dcRef st"; cases "pcRef st";
      cases "audioElRef st") (simp_all add: cleanup_def)

lemma cleanup_released: "released st (cleanup st)"
  by (auto simp: released_def cleanup_eq split: option.splits)

lemma cleanup_holdsNothing: "holdsNothing (cleanup st)"
  by (simp add: holdsNothing_def cleanup_eq)

text \<open>
  C9. \<^verbatim>\<open>disconnect\<close> twice is \<^verbatim>\<open>disconnect\<close> once. From any state it leaves status
  disconnected, the input volume 0 and the speaking flag off; no ref holds an object; the
  animation frame, the capture tracks, the data channel, the peer connection and the audio
  element that the refs held are no longer live. When no ref holds an object it only sets
  the two flags and the status.
\<close>

theorem disconnect_idempotent:
  "disconnect (disconnect st) = disconnect st \<and>
   status (disconnect st) = Disconnected \<and>
   inputVolume (disconnect st) = 0 \<and>
   \<not> isAiSpeaking (disconnect st) \<and>
   holdsNothing (disconnect st) \<and>
   released st (disconnect st) \<and>
   (holdsNothing st \<longrightarrow>
      disconnect st = st\<lparr> inputVolume := 0, isAiSpeaking := False, status := Disconnected \<rparr>)"
proof -
  have "disconnect (disconnect st) = disconnect st"
    by (simp add: disconnect_def cleanup_eq)
  moreover have "status (disconnect st) = Disconnected \<and> inputVolume (disconnect st) = 0 \<and>
      \<not> isAiSpeaking (disconnect st)"
    by (simp add: disconnect_def cleanup_eq)
  moreover have "holdsNothing (disconnect st)"
    using cleanup_holdsNothing [of st] by (simp add: disconnect_def holdsNothing_def)
  moreover have "released st (disconnect st)"
    using cleanup_released [of st] by (simp add: disconnect_def released_def split: option.splits)
  moreover have "holdsNothing st \<longrightarrow>
      disconnect st = st\<lparr> inputVolume := 0, isAiSpeaking := False, status := Disconnected \<rparr>"
    by (simp add: disconnect_def cleanup_eq holdsNothing_def)
  ultimately show ?thesis by blast
qed

theorem disconnect_idempotent_witness:
  "holdsNothing initial \<and> disconnect initial = initial \<and>
   pcRef (connect envOk initial) = Some 1 \<and>
   released (connect envOk initial) (disconnect (connect envOk initial)) \<and>
   peers (disconnect (connect envOk initial)) = {}"
proof -
  have h: "holdsNothing initial" by (simp add: holdsNothing_def initial_def)
  with disconnect_idempotent [of initial]
  have "disconnect initial = initial" by (simp add: initial_def)
  moreover have "pcRef (connect envOk initial) = Some 1"
    by (simp add: connect_def connect_try_def getToken_def openPeer_def openMedia_def negotiate_def
        envOk_def monitorVolume_def tick_def initial_def)
  moreover have "peers (disconnect (connect envOk initial)) = {}"
    by (simp add: disconnect_def cleanup_eq connect_def connect_try_def getToken_def
        openPeer_def openMedia_def negotiate_def envOk_def monitorVolume_def tick_def
        initial_def)
  moreover from disconnect_idempotent [of "connect envOk initial"]
  have "released (connect envOk initial) (disconnect (connect envOk initial))" by blast
  ultimately show ?thesis using h by blast
qed

section \<open>Failures of connect\<close>

text \<open>The \<^verbatim>\<open>try\<close> block stops with nothing acquired, with the peer connection and the audio
  element acquired, or with everything acquired.\<close>

lemma connect_try_shapes:
  assumes "connect_try env st0 = (r, stc)"
  obtains "stc = st0"
  | "stc = openPeer env st0"
  | stream where "stc = openMedia env stream (openPeer env st0)"
  using assms by (auto simp: connect_try_def Let_def split: sum.splits)

lemma connect_failed:
  "connect_try env (st\<lparr> error := None, status := Connecting \<rparr>) = (Some err, stc) \<Longrightarrow>
     connect env st = cleanup (stc\<lparr> error := Some (errorMessage err), status := Disconnected \<rparr>)"
  by (simp add: connect_def)

lemma connect_failed_shrinks:
  assumes "connect_try env (st\<lparr> error := None, status := Connecting \<rparr>) = (Some err, stc)"
  shows "frames (connect env st) \<subseteq> frames st \<and> tracks (connect env st) \<subseteq> tracks st \<and>
         channels (connect env st) \<subseteq> channels st \<and> peers (connect env st) \<subseteq> peers st \<and>
         sinks (connect env st) \<subseteq> sinks st"
  using assms
proof (cases rule: connect_try_shapes)
  case 1
  then show ?thesis
    unfolding connect_failed [OF assms] by (auto simp: cleanup_eq split: option.splits)
next
  case 2
  then show ?thesis
    unfolding connect_failed [OF assms]
    by (auto simp: cleanup_eq openPeer_def Let_def split: option.splits)
next
  case (3 stream)
  then show ?thesis
    unfolding connect_failed [OF assms]
    by (auto simp: cleanup_eq openPeer_def openMedia_def monitorVolume_def tick_def Let_def
        split: option.splits)
qed

lemma released_cleanup_update:
  "released st (cleanup (st\<lparr> error := e, status := s \<rparr>))"
  by (auto simp: released_def cleanup_eq split: option.splits)

text \<open>
  C5, as amended. When any step of \<^verbatim>\<open>connect\<close> fails (no credential, no microphone, the
  offer rejected, or any other step throwing), status is back at disconnected, the message
  of the failure is the error shown, no ref holds an object, every object that a ref held
  when the failure was caught is released, whatever the attempt acquired is no longer
  live, and the derived flags are reset. A remote-error event shows its message and
  changes nothing else: status and every resource stay as they were.
\<close>

theorem connect_failure_reverts:
  assumes "connect_try env (st\<lparr> error := None, status := Connecting \<rparr>) = (Some err, stc)"
  shows "status (connect env st) = Disconnected \<and>
         error (connect env st) = Some (errorMessage err) \<and>
         holdsNothing (connect env st) \<and>
         released stc (connect env st) \<and>
         frames (connect env st) \<subseteq> frames st \<and> tracks (connect env st) \<subseteq> tracks st \<and>
         channels (connect env st) \<subseteq> channels st \<and> peers (connect env st) \<subseteq> peers st \<and>
         sinks (connect env st) \<subseteq> sinks st \<and>
         inputVolume (connect env st) = 0 \<and> \<not> isAiSpeaking (connect env st) \<and>
         (type e = ''error'' \<longrightarrow>
            handleRealtimeEvent now e st' =
              st'\<lparr> error := Some (case error_message e of
                                    None \<Rightarrow> ''An error occurred''
                                  | Some errMsg \<Rightarrow> if errMsg \<noteq> '''' then errMsg
                                                 else ''An error occurred'') \<rparr>)"
proof -
  have "status (connect env st) = Disconnected \<and>
      error (connect env st) = Some (errorMessage err) \<and>
      inputVolume (connect env st) = 0 \<and> \<not> isAiSpeaking (connect env st)"
    unfolding connect_failed [OF assms] by (simp add: cleanup_eq)
  moreover have "holdsNothing (connect env st)"
    unfolding connect_failed [OF assms] by (rule cleanup_holdsNothing)
  moreover have "released stc (connect env st)"
    unfolding connect_failed [OF assms] by (rule released_cleanup_update)
  moreover note connect_failed_shrinks [OF assms]
  moreover have "type e = ''error'' \<longrightarrow>
      handleRealtimeEvent now e st' =
        st'\<lparr> error := Some (case error_message e of
                              None \<Rightarrow> ''An error occurred''
                            | Some errMsg \<Rightarrow> if errMsg \<noteq> '''' then errMsg
                                           else ''An error occurred'') \<rparr>"
    by (simp add: handle_error)
  ultimately show ?thesis by blast
qed

theorem connect_failure_reverts_witness:
  "connect_try envRejected (initial\<lparr> error := None, status := Connecting \<rparr>) =
     (Some (ErrorObj ''Failed to establish WebRTC connection with OpenAI''),
      openMedia envRejected [3]
        (openPeer envRejected (initial\<lparr> error := None, status := Connecting \<rparr>))) \<and>
   pcRef (openMedia envRejected [3]
        (openPeer envRejected (initial\<lparr> error := None, status := Connecting \<rparr>))) = Some 1 \<and>
   status (connect envRejected initial) = Disconnected \<and>
   error (connect envRejected initial) =
     Some ''Failed to establish WebRTC connection with OpenAI'' \<and>
   holdsNothing (connect envRejected initial) \<and>
   peers (connect envRejected initial) = {} \<and>
   tracks (connect envRejected initial) = {} \<and>
   connect envNoMicrophone initial = initial\<lparr> error := Some ''Permission denied'' \<rparr> \<and>
   connect envNoKey initial = initial\<lparr> error := Some ''OPENAI_API_KEY is not configured'' \<rparr>"
proof -
  let ?st0 = "initial\<lparr> error := None, status := Connecting \<rparr>"
  have t: "connect_try envRejected ?st0 =
     (Some (ErrorObj ''Failed to establish WebRTC connection with OpenAI''),
      openMedia envRejected [3] (openPeer envRejected ?st0))"
    by (simp add: connect_try_def getToken_def negotiate_def envRejected_def envOk_def)
  have p: "pcRef (openMedia envRejected [3] (openPeer envRejected ?st0)) = Some 1"
    by (simp add: openMedia_def openPeer_def monitorVolume_def tick_def envRejected_def
        envOk_def)
  from connect_failure_reverts [OF t]
  have r: "status (connect envRejected initial) = Disconnected \<and>
      error (connect envRejected initial) =
        Some ''Failed to establish WebRTC connection with OpenAI'' \<and>
      holdsNothing (connect envRejected initial) \<and>
      peers (connect envRejected initial) = {} \<and>
      tracks (connect envRejected initial) = {}"
    by (simp add: errorMessage_def initial_def)
  have m: "connect envNoMicrophone initial = initial\<lparr> error := Some ''Permission denied'' \<rparr>"
    by (simp add: connect_def connect_try_def getToken_def openPeer_def cleanup_eq
        errorMessage_def envNoMicrophone_def envOk_def initial_def)
  have k: "connect envNoKey initial =
      initial\<lparr> error := Some ''OPENAI_API_KEY is not configured'' \<rparr>"
    by (simp add: connect_def connect_try_def getToken_def cleanup_eq errorMessage_def
        envNoKey_def envOk_def initial_def)
  from t p r m k show ?thesis by simp
qed

text \<open>
  A remote-error event on a connected session: the message is shown, while status stays
  connected and the peer connection, the capture track and the metering loop stay live.
\<close>

theorem remote_error_counterexample:
  "status (handleRealtimeEvent 9
      \<lparr> type = ''error'', item_id = '''', delta = '''', transcript = '''',
        error_message = Some ''Session expired'' \<rparr>
      (dc_onopen (connect envOk initial))) = Connected \<and>
   error (handleRealtimeEvent 9
      \<lparr> type = ''error'', item_id = '''', delta = '''', transcript = '''',
        error_message = Some ''Session expired'' \<rparr>
      (dc_onopen (connect envOk initial))) = Some ''Session expired'' \<and>
   pcRef (handleRealtimeEvent 9
      \<lparr> type = ''error'', item_id = '''', delta = '''', transcript = '''',
        error_message = Some ''Session expired'' \<rparr>
      (dc_onopen (connect envOk initial))) = Some 1 \<and>
   peers (handleRealtimeEvent 9
      \<lparr> type = ''error'', item_id = '''', delta = '''', transcript = '''',
        error_message = Some ''Session expired'' \<rparr>
      (dc_onopen (connect envOk initial))) = {1} \<and>
   tracks (handleRealtimeEvent 9
      \<lparr> type = ''error'', item_id = '''', delta = '''', transcript = '''',
        error_message = Some ''Session expired'' \<rparr>
      (dc_onopen (connect envOk initial))) = {3} \<and>
   frames (handleRealtimeEvent 9
      \<lparr> type = ''error'', item_id = '''', delta = '''', transcript = '''',
        error_message = Some ''Session expired'' \<rparr>
      (dc_onopen (connect envOk initial))) = {5}"
  by (simp add: handle_error dc_onopen_def connect_def connect_try_def getToken_def
      openPeer_def openMedia_def negotiate_def monitorVolume_def tick_def envOk_def
      initial_def)

end
